theory Spec2Isabelle
  imports Main "HOL-Library.Sublist"
begin

section \<open>Python values seen by the handler\<close>

text \<open>
  The event is what the runtime decodes from JSON: \<open>None\<close>, booleans, integers, strings,
  lists and dictionaries with string keys. A dictionary is an association list read from
  the front, so the first binding of a key is its value. JSON numbers with a fraction
  are left out: S3 reports sizes as integers.
\<close>

datatype json =
    JNull
  | JBool bool
  | JInt int
  | JStr string
  | JList "json list"
  | JDict "(string \<times> json) list"

text \<open>
  An exception is an instance of \<open>Exception\<close>: the name of its class
  (\<open>type(e).__name__\<close>), the names of the classes it inherits from below
  \<open>Exception\<close>, and its text (\<open>str(e)\<close>). Signals that are not errors
  (\<open>KeyboardInterrupt\<close>, \<open>SystemExit\<close>) are outside the model, so the clause
  \<open>except Exception\<close> catches every value of this type.
\<close>

datatype exn = Exn (exn_class: string) (exn_bases: "string list") (exn_str: string)

definition isinstance :: "exn \<Rightarrow> string \<Rightarrow> bool" where
  "isinstance e c = (c \<in> set (exn_class e # exn_bases e))"

definition KeyError :: "string \<Rightarrow> exn" where
  "KeyError s = Exn ''KeyError'' [''LookupError''] s"

definition IndexError :: "string \<Rightarrow> exn" where
  "IndexError s = Exn ''IndexError'' [''LookupError''] s"

definition TypeError :: "string \<Rightarrow> exn" where
  "TypeError s = Exn ''TypeError'' [] s"

definition ValueError :: "string \<Rightarrow> exn" where
  "ValueError s = Exn ''ValueError'' [] s"

definition AttributeError :: "string \<Rightarrow> exn" where
  "AttributeError s = Exn ''AttributeError'' [] s"

definition OverflowError :: "string \<Rightarrow> exn" where
  "OverflowError s = Exn ''OverflowError'' [''ArithmeticError''] s"

definition squote :: string where
  "squote = [CHR 0x27]"

definition type_name :: "json \<Rightarrow> string" where
  "type_name v =
     (case v of JNull \<Rightarrow> ''NoneType'' | JBool _ \<Rightarrow> ''bool'' | JInt _ \<Rightarrow> ''int''
      | JStr _ \<Rightarrow> ''str'' | JList _ \<Rightarrow> ''list'' | JDict _ \<Rightarrow> ''dict'')"

subsection \<open>Printing numbers\<close>

fun show_nat :: "nat \<Rightarrow> string" where
  "show_nat n =
     (if n < 10 then [''0123456789'' ! n]
      else show_nat (n div 10) @ [''0123456789'' ! (n mod 10)])"

declare show_nat.simps [simp del]

definition show_int :: "int \<Rightarrow> string" where
  "show_int i = (if i < 0 then ''-'' @ show_nat (nat (- i)) else show_nat (nat i))"

text \<open>The format \<open>{n:,}\<close>: decimal digits in groups of three, separated by commas.\<close>

fun group3 :: "nat \<Rightarrow> string" where
  "group3 n =
     (if n < 1000 then show_nat n
      else group3 (n div 1000) @ '','' @
           [''0123456789'' ! (n mod 1000 div 100), ''0123456789'' ! (n mod 100 div 10),
            ''0123456789'' ! (n mod 10)])"

declare group3.simps [simp del]

definition fmt_comma :: "int \<Rightarrow> string" where
  "fmt_comma i = (if i < 0 then ''-'' @ group3 (nat (- i)) else group3 (nat i))"

text \<open>
  True division of an integer by \<open>2 ^ k\<close> gives the double nearest to the quotient
  (ties to the even mantissa) and raises \<open>OverflowError\<close> when that double would be
  \<open>2 ^ 1024\<close> or more. The format \<open>.2f\<close> prints the double rounded to two decimals,
  ties to even, with the sign of the double.
\<close>

definition round_half_even :: "nat \<Rightarrow> nat \<Rightarrow> nat" where
  "round_half_even a b =
     (let q = a div b; r = a mod b
      in if 2 * r < b then q else if b < 2 * r then q + 1 else if even q then q else q + 1)"

fun bitlen :: "nat \<Rightarrow> nat" where
  "bitlen n = (if n = 0 then 0 else Suc (bitlen (n div 2)))"

declare bitlen.simps [simp del]

definition round53 :: "nat \<Rightarrow> nat" where
  "round53 m =
     (if bitlen m \<le> 53 then m
      else round_half_even m (2 ^ (bitlen m - 53)) * 2 ^ (bitlen m - 53))"

definition truediv_overflows :: "int \<Rightarrow> nat \<Rightarrow> bool" where
  "truediv_overflows n k = (2 ^ (1024 + k) \<le> round53 (nat \<bar>n\<bar>))"

definition fmt_2f :: "int \<Rightarrow> nat \<Rightarrow> string" where
  "fmt_2f n k =
     (let h = round_half_even (round53 (nat \<bar>n\<bar>) * 100) (2 ^ k)
      in (if n < 0 then ''-'' else '''') @ show_nat (h div 100) @ ''.'' @
         [''0123456789'' ! (h mod 100 div 10), ''0123456789'' ! (h mod 10)])"

subsection \<open>Subscripts\<close>

datatype key = KStr string | KInt int

text \<open>
  \<open>v[k]\<close> as Python evaluates it on a decoded JSON value. A missing dictionary key
  raises \<open>KeyError\<close>, whose text is the \<open>repr\<close> of the key: for the keys of the
  handler (letters and digits only) that is the key between single quotes. An index
  outside a list raises \<open>IndexError\<close>; subscripting anything else is a \<open>TypeError\<close>.
\<close>

definition py_index :: "'a list \<Rightarrow> int \<Rightarrow> 'a option" where
  "py_index xs i =
     (if 0 \<le> i \<and> i < int (length xs) then Some (xs ! nat i)
      else if i < 0 \<and> - int (length xs) \<le> i then Some (xs ! nat (int (length xs) + i))
      else None)"

fun subscript :: "json \<Rightarrow> key \<Rightarrow> exn + json" where
  "subscript (JDict d) (KStr k) =
     (case map_of d k of Some v \<Rightarrow> Inr v | None \<Rightarrow> Inl (KeyError (squote @ k @ squote)))"
| "subscript (JDict d) (KInt i) = Inl (KeyError (show_int i))"
| "subscript (JList xs) (KInt i) =
     (case py_index xs i of Some v \<Rightarrow> Inr v
      | None \<Rightarrow> Inl (IndexError ''list index out of range''))"
| "subscript (JList xs) (KStr k) =
     Inl (TypeError ''list indices must be integers or slices, not str'')"
| "subscript (JStr s) (KInt i) =
     (case py_index s i of Some c \<Rightarrow> Inr (JStr [c])
      | None \<Rightarrow> Inl (IndexError ''string index out of range''))"
| "subscript (JStr s) (KStr k) =
     Inl (TypeError (''string indices must be integers, not '' @ squote @ ''str'' @ squote))"
| "subscript v k = Inl (TypeError (squote @ type_name v @ squote @ '' object is not subscriptable''))"

fun lookup_path :: "json \<Rightarrow> key list \<Rightarrow> exn + json" where
  "lookup_path v [] = Inr v"
| "lookup_path v (k # ks) =
     (case subscript v k of Inl e \<Rightarrow> Inl e | Inr w \<Rightarrow> lookup_path w ks)"

section \<open>Collaborators\<close>

text \<open>
  The handler reaches the outside world through \<open>os.environ\<close>, the two clients
  (\<open>s3_client.copy_object\<close>, \<open>sns_client.publish\<close>, each returning a dictionary or
  raising) and the clock: \<open>now env i\<close> is the text of the reading number \<open>i\<close> of
  \<open>datetime.now().strftime('%Y-%m-%d %H:%M:%S UTC')\<close> in one invocation. \<open>repr\<close> is
  the text Python prints for a list or a dictionary.
\<close>

record copy_request =
  CopySource_Bucket :: json
  CopySource_Key :: json
  Bucket :: string
  Key :: json
  ServerSideEncryption :: string

record publish_request =
  TopicArn :: string
  Subject :: string
  Message :: string

datatype call = CopyObject copy_request | Publish publish_request

record env =
  environ :: "string \<rightharpoonup> string"
  copy_object :: "copy_request \<Rightarrow> exn + (string \<times> json) list"
  publish :: "publish_request \<Rightarrow> exn + (string \<times> json) list"
  now :: "nat \<Rightarrow> string"
  repr :: "json \<Rightarrow> string"

text \<open>A value interpolated in an f-string.\<close>

definition py_str :: "env \<Rightarrow> json \<Rightarrow> string" where
  "py_str env v =
     (case v of JStr s \<Rightarrow> s | JInt i \<Rightarrow> show_int i
      | JBool b \<Rightarrow> (if b then ''True'' else ''False'') | JNull \<Rightarrow> ''None''
      | JList _ \<Rightarrow> repr env v | JDict _ \<Rightarrow> repr env v)"

text \<open>A number as \<open>/\<close> takes it: \<open>bool\<close> is a subclass of \<open>int\<close>.\<close>

definition as_int :: "json \<Rightarrow> int option" where
  "as_int v =
     (case v of JInt i \<Rightarrow> Some i | JBool b \<Rightarrow> Some (if b then 1 else 0) | JNull \<Rightarrow> None
      | JStr _ \<Rightarrow> None | JList _ \<Rightarrow> None | JDict _ \<Rightarrow> None)"

text \<open>What evaluating \<open>v / 2 ^ k\<close> raises, if anything.\<close>

definition truediv_check :: "json \<Rightarrow> nat \<Rightarrow> exn + unit" where
  "truediv_check v k =
     (case as_int v of
        None \<Rightarrow>
          Inl (TypeError (''unsupported operand type(s) for /: '' @ squote @ type_name v @ squote
                 @ '' and '' @ squote @ ''int'' @ squote))
      | Some n \<Rightarrow>
          if truediv_overflows n k
          then Inl (OverflowError ''integer division result too large for a float'')
          else Inr ())"

section \<open>Message formatters\<close>

definition lines_text :: "string list \<Rightarrow> string" where
  "lines_text ls = concat (map (\<lambda>l. l @ [CHR 0x0A]) ls)"

definition format_success_message ::
  "string \<Rightarrow> int \<Rightarrow> string \<Rightarrow> string \<Rightarrow> string \<Rightarrow> exn + string" where
  "format_success_message object_key file_size source_bucket backup_bucket timestamp =
     (if truediv_overflows file_size 20
      then Inl (OverflowError ''integer division result too large for a float'')
      else Inr (lines_text
       ['''',
        ''BACKUP OPERATION SUCCESSFUL'',
        '''',
        ''File Details:'',
        ''-------------'',
        ''File Name: '' @ object_key,
        ''File Size: '' @ fmt_comma file_size @ '' bytes ('' @ fmt_2f file_size 20 @ '' MB)'',
        '''',
        ''Source Location:'',
        ''---------------'',
        ''Bucket: '' @ source_bucket,
        ''Region: us-east-1 (N. Virginia)'',
        '''',
        ''Backup Location:'',
        ''---------------'',
        ''Bucket: '' @ backup_bucket,
        ''Region: us-west-2 (Oregon)'',
        '''',
        ''Operation Details:'',
        ''-----------------'',
        ''Status: SUCCESS'',
        ''Timestamp: '' @ timestamp,
        ''Encryption: AES256 (Server-side)'',
        '''',
        ''Your file has been successfully replicated to the backup region.'',
        ''This provides protection against regional failures and data loss.'',
        '''',
        ''---'',
        ''Automated AWS S3 Backup System'']))"

text \<open>
  \<open>format_failure_message\<close> reads the clock itself; the reading is the first argument
  of the model.
\<close>

definition format_failure_message ::
  "string \<Rightarrow> string \<Rightarrow> string \<Rightarrow> string \<Rightarrow> string \<Rightarrow> string \<Rightarrow> string" where
  "format_failure_message timestamp error_msg error_type object_key source_bucket backup_bucket =
     lines_text
       ['''',
        ''BACKUP OPERATION FAILED - ACTION REQUIRED'',
        '''',
        ''Error Details:'',
        ''-------------'',
        ''Error Type: '' @ error_type,
        ''Error Message: '' @ error_msg,
        ''Timestamp: '' @ timestamp,
        '''',
        ''File Information:'',
        ''----------------'',
        ''File Name: '' @ object_key,
        ''Source Bucket: '' @ source_bucket,
        ''Backup Bucket: '' @ backup_bucket,
        '''',
        ''Troubleshooting Steps:'',
        ''---------------------'',
        ''1. Check CloudWatch Logs for detailed error information'',
        ''2. Verify IAM role permissions (S3 read/write, SNS publish)'',
        ''3. Confirm backup bucket exists and is accessible'',
        ''4. Verify environment variables are configured correctly'',
        ''5. Check Lambda function timeout settings'',
        '''',
        ''CloudWatch Log Group:'',
        ''--------------------'',
        ''/aws/lambda/S3AutoBackupFunction'',
        '''',
        ''For immediate assistance, review the Lambda function logs'',
        ''in CloudWatch or contact your cloud administrator.'',
        '''',
        ''---'',
        ''Automated AWS S3 Backup System'']"

section \<open>Failure notification\<close>

text \<open>
  \<open>send_failure_notification\<close>: the guard on the topic, then the body of its
  \<open>try\<close> (\<open>sfn_try\<close>: build the message with reading \<open>t\<close> of the clock, publish),
  then its \<open>except Exception\<close>, which only prints. The result pairs what the function
  raises or returns with the calls it made.
\<close>

definition sfn_message :: "string \<Rightarrow> string \<Rightarrow> string \<Rightarrow> string" where
  "sfn_message timestamp error_msg error_category =
     lines_text
       ['''',
        ''BACKUP SYSTEM ERROR'',
        '''',
        ''Category: '' @ error_category,
        ''Error: '' @ error_msg,
        ''Timestamp: '' @ timestamp,
        '''',
        ''Please check CloudWatch logs for detailed information.'']"

definition sfn_request :: "env \<Rightarrow> nat \<Rightarrow> string \<Rightarrow> string \<Rightarrow> string \<Rightarrow> publish_request" where
  "sfn_request env t arn error_msg error_category =
     \<lparr>TopicArn = arn,
      Subject = ''AWS Backup System Error - '' @ error_category,
      Message = sfn_message (now env t) error_msg error_category\<rparr>"

definition sfn_try ::
  "env \<Rightarrow> nat \<Rightarrow> string \<Rightarrow> string \<Rightarrow> string \<Rightarrow> (exn + unit) \<times> call list" where
  "sfn_try env t arn error_msg error_category =
     (let req = sfn_request env t arn error_msg error_category
      in (case publish env req of Inl e \<Rightarrow> Inl e | Inr _ \<Rightarrow> Inr (), [Publish req]))"

definition send_failure_notification ::
  "env \<Rightarrow> nat \<Rightarrow> string option \<Rightarrow> string \<Rightarrow> string \<Rightarrow> (exn + unit) \<times> call list" where
  "send_failure_notification env t sns_topic_arn error_msg error_category =
     (case sns_topic_arn of
        None \<Rightarrow> (Inr (), [])
      | Some arn \<Rightarrow>
          if arn = [] then (Inr (), [])
          else (case sfn_try env t arn error_msg error_category of
                  (Inl e, cs) \<Rightarrow> (Inr (), cs)
                | (Inr u, cs) \<Rightarrow> (Inr u, cs)))"

section \<open>The handler\<close>

text \<open>
  The local variables that the \<open>except\<close> clauses test with \<open>in locals()\<close>: \<open>None\<close>
  is a name not yet bound. The two configuration values are bound to what
  \<open>os.environ.get\<close> returned, which is Python's \<open>None\<close> for a variable that is not set.
\<close>

record locals =
  loc_backup_bucket :: "string option option"
  loc_sns_topic_arn :: "string option option"
  loc_source_bucket :: "json option"
  loc_object_key :: "json option"
  loc_file_size :: "json option"
  loc_event_time :: "json option"
  loc_current_time :: "string option"

record response =
  statusCode :: int
  body :: "(string \<times> json) list"

text \<open>
  The \<open>except\<close> clause that handled a failure, under the name the specification gives
  it: \<open>except KeyError\<close> is \<open>MalformedEvent\<close>, \<open>except ValueError\<close> is
  \<open>ConfigurationError\<close>, \<open>except Exception\<close> is \<open>StorageOperationError\<close>.
\<close>

datatype error_kind = MalformedEvent | ConfigurationError | StorageOperationError

text \<open>
  One invocation: what the handler returns (\<open>Inr\<close>) or raises (\<open>Inl\<close>), the clause
  that handled the failure, and the calls made on the two clients, in order. The field
  \<open>body\<close> of a response is the dictionary that the source passes to \<open>json.dumps\<close>.
  Printing is not modelled, except for the expressions inside a \<open>print\<close> that can raise:
  the size in kilobytes, the ETag of the copy, the \<open>MessageId\<close> of the publish. The
  \<open>print\<close> of the event before the \<open>try\<close> cannot raise on a decoded event, and the
  argument \<open>context\<close> is not used.
\<close>

record run =
  result :: "exn + response"
  handled :: "error_kind option"
  calls :: "call list"

definition read_config :: "env \<Rightarrow> locals" where
  "read_config env =
     \<lparr>loc_backup_bucket = Some (environ env ''BACKUP_BUCKET''),
      loc_sns_topic_arn = Some (environ env ''SNS_TOPIC_ARN''),
      loc_source_bucket = None, loc_object_key = None, loc_file_size = None,
      loc_event_time = None, loc_current_time = None\<rparr>"

definition validate_config :: "string option \<Rightarrow> string option \<Rightarrow> exn + string \<times> string" where
  "validate_config backup_bucket sns_topic_arn =
     (case backup_bucket of
        None \<Rightarrow> Inl (ValueError ''BACKUP_BUCKET environment variable not set'')
      | Some b \<Rightarrow>
          if b = [] then Inl (ValueError ''BACKUP_BUCKET environment variable not set'')
          else (case sns_topic_arn of
                  None \<Rightarrow> Inl (ValueError ''SNS_TOPIC_ARN environment variable not set'')
                | Some a \<Rightarrow>
                    if a = [] then Inl (ValueError ''SNS_TOPIC_ARN environment variable not set'')
                    else Inr (b, a)))"

definition bucket_name_path :: "key list" where
  "bucket_name_path = [KStr ''Records'', KInt 0, KStr ''s3'', KStr ''bucket'', KStr ''name'']"

definition object_key_path :: "key list" where
  "object_key_path = [KStr ''Records'', KInt 0, KStr ''s3'', KStr ''object'', KStr ''key'']"

definition object_size_path :: "key list" where
  "object_size_path = [KStr ''Records'', KInt 0, KStr ''s3'', KStr ''object'', KStr ''size'']"

definition event_time_path :: "key list" where
  "event_time_path = [KStr ''Records'', KInt 0, KStr ''eventTime'']"

text \<open>
  Reading the four fields of the event, then the \<open>print\<close> of the file details, whose
  \<open>file_size / 1024\<close> raises on a size that is not a number.
\<close>

definition extract_event :: "json \<Rightarrow> locals \<Rightarrow> (exn + json \<times> json \<times> json) \<times> locals" where
  "extract_event event l =
     (case lookup_path event bucket_name_path of
        Inl e \<Rightarrow> (Inl e, l)
      | Inr source_bucket \<Rightarrow>
     (case lookup_path event object_key_path of
        Inl e \<Rightarrow> (Inl e, l\<lparr>loc_source_bucket := Some source_bucket\<rparr>)
      | Inr object_key \<Rightarrow>
     (case lookup_path event object_size_path of
        Inl e \<Rightarrow> (Inl e, l\<lparr>loc_source_bucket := Some source_bucket,
                              loc_object_key := Some object_key\<rparr>)
      | Inr file_size \<Rightarrow>
     (case lookup_path event event_time_path of
        Inl e \<Rightarrow> (Inl e, l\<lparr>loc_source_bucket := Some source_bucket,
                              loc_object_key := Some object_key,
                              loc_file_size := Some file_size\<rparr>)
      | Inr event_time \<Rightarrow>
     (let l' = l\<lparr>loc_source_bucket := Some source_bucket, loc_object_key := Some object_key,
                  loc_file_size := Some file_size, loc_event_time := Some event_time\<rparr>
      in case truediv_check file_size 10 of
           Inl e \<Rightarrow> (Inl e, l')
         | Inr _ \<Rightarrow> (Inr (source_bucket, object_key, file_size), l'))))))"

text \<open>The \<open>print\<close> of the ETag: \<open>copy_response.get('CopyObjectResult', {}).get('ETag', 'N/A')\<close>.\<close>

definition etag_of :: "(string \<times> json) list \<Rightarrow> exn + json" where
  "etag_of copy_response =
     (case (case map_of copy_response ''CopyObjectResult'' of None \<Rightarrow> JDict [] | Some v \<Rightarrow> v) of
        JDict d \<Rightarrow> Inr (case map_of d ''ETag'' of None \<Rightarrow> JStr ''N/A'' | Some t \<Rightarrow> t)
      | JNull \<Rightarrow> Inl (AttributeError (squote @ ''NoneType'' @ squote @ '' object has no attribute '' @ squote @ ''get'' @ squote))
      | JBool _ \<Rightarrow> Inl (AttributeError (squote @ ''bool'' @ squote @ '' object has no attribute '' @ squote @ ''get'' @ squote))
      | JInt _ \<Rightarrow> Inl (AttributeError (squote @ ''int'' @ squote @ '' object has no attribute '' @ squote @ ''get'' @ squote))
      | JStr _ \<Rightarrow> Inl (AttributeError (squote @ ''str'' @ squote @ '' object has no attribute '' @ squote @ ''get'' @ squote))
      | JList _ \<Rightarrow> Inl (AttributeError (squote @ ''list'' @ squote @ '' object has no attribute '' @ squote @ ''get'' @ squote)))"

definition copy_request_of :: "string \<Rightarrow> json \<Rightarrow> json \<Rightarrow> copy_request" where
  "copy_request_of backup_bucket source_bucket object_key =
     \<lparr>CopySource_Bucket = source_bucket, CopySource_Key = object_key,
      Bucket = backup_bucket, Key = object_key, ServerSideEncryption = ''AES256''\<rparr>"

text \<open>
  The call of \<open>format_success_message\<close> from the handler: the key and the source
  bucket are interpolated as they are, the size is the number the event gave.
\<close>

definition success_message :: "env \<Rightarrow> json \<Rightarrow> json \<Rightarrow> json \<Rightarrow> string \<Rightarrow> string \<Rightarrow> exn + string" where
  "success_message env object_key file_size source_bucket backup_bucket current_time =
     (case as_int file_size of
        None \<Rightarrow>
          Inl (TypeError (''unsupported operand type(s) for /: '' @ squote @ type_name file_size
                 @ squote @ '' and '' @ squote @ ''int'' @ squote))
      | Some n \<Rightarrow>
          format_success_message (py_str env object_key) n (py_str env source_bucket)
            backup_bucket current_time)"

definition success_request :: "string \<Rightarrow> string \<Rightarrow> publish_request" where
  "success_request sns_topic_arn msg =
     \<lparr>TopicArn = sns_topic_arn, Subject = ''AWS Backup Success - File Replicated'',
      Message = msg\<rparr>"

definition success_response :: "env \<Rightarrow> string \<Rightarrow> json \<Rightarrow> json \<Rightarrow> json \<Rightarrow> string \<Rightarrow> response" where
  "success_response env backup_bucket source_bucket object_key file_size current_time =
     \<lparr>statusCode = 200,
      body = [(''message'', JStr ''Backup completed successfully''),
              (''source'', JStr (py_str env source_bucket @ ''/'' @ py_str env object_key)),
              (''destination'', JStr (backup_bucket @ ''/'' @ py_str env object_key)),
              (''size_bytes'', file_size),
              (''timestamp'', JStr current_time)]\<rparr>"

text \<open>From the copy to the \<open>return\<close>.\<close>

definition perform_backup ::
  "env \<Rightarrow> string \<Rightarrow> string \<Rightarrow> json \<Rightarrow> json \<Rightarrow> json \<Rightarrow> locals
     \<Rightarrow> (exn + response) \<times> locals \<times> call list" where
  "perform_backup env backup_bucket sns_topic_arn source_bucket object_key file_size l =
     (let req = copy_request_of backup_bucket source_bucket object_key
      in case copy_object env req of
        Inl e \<Rightarrow> (Inl e, l, [CopyObject req])
      | Inr copy_response \<Rightarrow>
     (case etag_of copy_response of
        Inl e \<Rightarrow> (Inl e, l, [CopyObject req])
      | Inr _ \<Rightarrow>
     (let current_time = now env 0; l' = l\<lparr>loc_current_time := Some current_time\<rparr>
      in case success_message env object_key file_size source_bucket backup_bucket current_time of
        Inl e \<Rightarrow> (Inl e, l', [CopyObject req])
      | Inr msg \<Rightarrow>
     (let preq = success_request sns_topic_arn msg
      in case publish env preq of
        Inl e \<Rightarrow> (Inl e, l', [CopyObject req, Publish preq])
      | Inr sns_response \<Rightarrow>
     (case subscript (JDict sns_response) (KStr ''MessageId'') of
        Inl e \<Rightarrow> (Inl e, l', [CopyObject req, Publish preq])
      | Inr _ \<Rightarrow>
          (Inr (success_response env backup_bucket source_bucket object_key file_size current_time),
           l', [CopyObject req, Publish preq]))))))"

text \<open>The body of the \<open>try\<close>.\<close>

definition try_body :: "env \<Rightarrow> json \<Rightarrow> (exn + response) \<times> locals \<times> call list" where
  "try_body env event =
     (case validate_config (environ env ''BACKUP_BUCKET'') (environ env ''SNS_TOPIC_ARN'') of
        Inl e \<Rightarrow> (Inl e, read_config env, [])
      | Inr (backup_bucket, sns_topic_arn) \<Rightarrow>
     (case extract_event event (read_config env) of
        (Inl e, l) \<Rightarrow> (Inl e, l, [])
      | (Inr (source_bucket, object_key, file_size), l) \<Rightarrow>
          perform_backup env backup_bucket sns_topic_arn source_bucket object_key file_size l))"

text \<open>The number of clock readings already made when an \<open>except\<close> clause starts.\<close>

definition ticks :: "locals \<Rightarrow> nat" where
  "ticks l = (case loc_current_time l of None \<Rightarrow> 0 | Some _ \<Rightarrow> 1)"

text \<open>\<open>sns_topic_arn if 'sns_topic_arn' in locals() else None\<close>\<close>

definition arn_or_None :: "locals \<Rightarrow> string option" where
  "arn_or_None l = (case loc_sns_topic_arn l of None \<Rightarrow> None | Some v \<Rightarrow> v)"

definition json_or :: "env \<Rightarrow> json option \<Rightarrow> string \<Rightarrow> string" where
  "json_or env v dflt = (case v of None \<Rightarrow> dflt | Some w \<Rightarrow> py_str env w)"

definition backup_bucket_or :: "locals \<Rightarrow> string \<Rightarrow> string" where
  "backup_bucket_or l dflt =
     (case loc_backup_bucket l of None \<Rightarrow> dflt | Some None \<Rightarrow> ''None'' | Some (Some b) \<Rightarrow> b)"

definition failure_request :: "env \<Rightarrow> exn \<Rightarrow> locals \<Rightarrow> string \<Rightarrow> publish_request" where
  "failure_request env e l arn =
     \<lparr>TopicArn = arn, Subject = ''AWS Backup FAILURE - Action Required'',
      Message = format_failure_message (now env (ticks l))
        (''Backup operation failed: '' @ exn_str e) (exn_class e)
        (json_or env (loc_object_key l) ''Unknown'')
        (json_or env (loc_source_bucket l) ''Unknown'')
        (backup_bucket_or l ''Not configured'')\<rparr>"

text \<open>
  The inner \<open>try\<close> of the last clause: publish when the topic is bound and not empty.
\<close>

definition notify_try :: "env \<Rightarrow> exn \<Rightarrow> locals \<Rightarrow> (exn + unit) \<times> call list" where
  "notify_try env e l =
     (case loc_sns_topic_arn l of
        None \<Rightarrow> (Inr (), [])
      | Some None \<Rightarrow> (Inr (), [])
      | Some (Some arn) \<Rightarrow>
          if arn = [] then (Inr (), [])
          else (let req = failure_request env e l arn
                in (case publish env req of Inl sns_error \<Rightarrow> Inl sns_error | Inr _ \<Rightarrow> Inr (),
                    [Publish req])))"

text \<open>
  A clause that calls \<open>send_failure_notification\<close> and then re-raises with a bare
  \<open>raise\<close>: were the call to raise, that exception would leave the handler instead.
\<close>

definition notify_and_raise ::
  "env \<Rightarrow> exn \<Rightarrow> locals \<Rightarrow> call list \<Rightarrow> error_kind \<Rightarrow> string \<Rightarrow> string \<Rightarrow> run" where
  "notify_and_raise env e l cs kind error_msg error_category =
     (case send_failure_notification env (ticks l) (arn_or_None l) error_msg error_category of
        (Inl e', cs') \<Rightarrow> \<lparr>result = Inl e', handled = Some kind, calls = cs @ cs'\<rparr>
      | (Inr _, cs') \<Rightarrow> \<lparr>result = Inl e, handled = Some kind, calls = cs @ cs'\<rparr>)"

definition lambda_handler :: "env \<Rightarrow> json \<Rightarrow> run" where
  "lambda_handler env event =
     (case try_body env event of
        (Inr resp, l, cs) \<Rightarrow> \<lparr>result = Inr resp, handled = None, calls = cs\<rparr>
      | (Inl e, l, cs) \<Rightarrow>
          if isinstance e ''KeyError'' then
            notify_and_raise env e l cs MalformedEvent
              (''Invalid event structure - missing required field: '' @ exn_str e)
              ''Invalid Event Data''
          else if isinstance e ''ValueError'' then
            notify_and_raise env e l cs ConfigurationError
              (''Configuration error: '' @ exn_str e)
              ''Configuration Error''
          else
            (case notify_try env e l of
               (Inl sns_error, cs') \<Rightarrow>
                 \<lparr>result = Inl e, handled = Some StorageOperationError, calls = cs @ cs'\<rparr>
             | (Inr _, cs') \<Rightarrow>
                 \<lparr>result = Inl e, handled = Some StorageOperationError, calls = cs @ cs'\<rparr>))"

section \<open>Notions used in the statements\<close>

text \<open>Python's \<open>not v\<close> on the value of a configuration variable.\<close>

definition falsy :: "string option \<Rightarrow> bool" where
  "falsy v = (case v of None \<Rightarrow> True | Some s \<Rightarrow> s = [])"

text \<open>The \<open>except\<close> clause that an exception reaches: the clauses are tried in order.\<close>

definition classify :: "exn \<Rightarrow> error_kind" where
  "classify e =
     (if isinstance e ''KeyError'' then MalformedEvent
      else if isinstance e ''ValueError'' then ConfigurationError
      else StorageOperationError)"

text \<open>The outcome without the response: \<open>Inl e\<close> for a failure, \<open>Inr ()\<close> for a success.\<close>

definition outcome :: "exn + response \<Rightarrow> exn + unit" where
  "outcome r = (case r of Inl e \<Rightarrow> Inl e | Inr _ \<Rightarrow> Inr ())"

text \<open>Two invocations, one after the other, on the same event and the same collaborators.\<close>

definition handle_twice :: "env \<Rightarrow> json \<Rightarrow> run \<times> run" where
  "handle_twice env event =
     (let first = lambda_handler env event; second = lambda_handler env event
      in (first, second))"

section \<open>Inputs of the scenarios\<close>

definition s3_event :: "(string \<times> json) list \<Rightarrow> json" where
  "s3_event object =
     JDict [(''Records'', JList [JDict
       [(''eventTime'', JStr ''2024-01-01T00:00:00Z''),
        (''s3'', JDict [(''bucket'', JDict [(''name'', JStr ''src'')]),
                        (''object'', JDict object)])]])]"

definition scenario_event :: json where
  "scenario_event = s3_event [(''key'', JStr ''a.txt''), (''size'', JInt 2048)]"

definition event_without_key :: json where
  "event_without_key = s3_event [(''size'', JInt 2048)]"

definition event_without_records :: json where
  "event_without_records = JDict [(''Records'', JList [])]"

definition copy_ok :: "copy_request \<Rightarrow> exn + (string \<times> json) list" where
  "copy_ok r = Inr [(''CopyObjectResult'', JDict [(''ETag'', JStr ''etag-1'')])]"

definition publish_ok :: "publish_request \<Rightarrow> exn + (string \<times> json) list" where
  "publish_ok r = Inr [(''MessageId'', JStr ''msg-1'')]"

definition client_error :: exn where
  "client_error = Exn ''ClientError'' [] ''An error occurred (AccessDenied)''"

definition copy_fails :: "exn \<Rightarrow> copy_request \<Rightarrow> exn + (string \<times> json) list" where
  "copy_fails e r = Inl e"

definition publish_fails :: "publish_request \<Rightarrow> exn + (string \<times> json) list" where
  "publish_fails r = Inl client_error"

definition clock :: "nat \<Rightarrow> string" where
  "clock i = (if i = 0 then ''2024-01-01 00:00:00 UTC'' else ''2024-01-01 00:00:01 UTC'')"

definition no_repr :: "json \<Rightarrow> string" where
  "no_repr v = ''...''"

definition config :: "string option \<Rightarrow> string option \<Rightarrow> string \<rightharpoonup> string" where
  "config backup_bucket sns_topic_arn name =
     (if name = ''BACKUP_BUCKET'' then backup_bucket
      else if name = ''SNS_TOPIC_ARN'' then sns_topic_arn else None)"

definition scenario_env :: env where
  "scenario_env =
     \<lparr>environ = config (Some ''dst'') (Some ''topic1''), copy_object = copy_ok,
      publish = publish_ok, now = clock, repr = no_repr\<rparr>"

definition unicode_error :: exn where
  "unicode_error = Exn ''UnicodeEncodeError'' [''UnicodeError'', ''ValueError''] ''surrogates not allowed''"

definition later_clock :: "nat \<Rightarrow> string" where
  "later_clock i = ''2024-01-02 12:00:00 UTC''"

section \<open>The failure notification never raises\<close>

lemma sfn_returns: "fst (send_failure_notification env t arn msg cat) = Inr ()"
  by (simp add: send_failure_notification_def sfn_try_def Let_def split: option.split sum.split)

lemma sfn_calls:
  "snd (send_failure_notification env t arn msg cat) =
     (case arn of None \<Rightarrow> []
      | Some a \<Rightarrow> if a = [] then [] else [Publish (sfn_request env t a msg cat)])"
  by (simp add: send_failure_notification_def sfn_try_def Let_def split: option.split sum.split)

lemma notify_and_raise_simps:
  "result (notify_and_raise env e l cs kind m c) = Inl e"
  "handled (notify_and_raise env e l cs kind m c) = Some kind"
  "calls (notify_and_raise env e l cs kind m c) =
     cs @ snd (send_failure_notification env (ticks l) (arn_or_None l) m c)"
  using sfn_returns [of env "ticks l" "arn_or_None l" m c]
  by (auto simp add: notify_and_raise_def split: prod.split sum.split)

section \<open>Configuration\<close>

lemma validate_config_falsy:
  "falsy bb \<Longrightarrow>
     validate_config bb arn = Inl (ValueError ''BACKUP_BUCKET environment variable not set'')"
  "\<not> falsy bb \<Longrightarrow> falsy arn \<Longrightarrow>
     validate_config bb arn = Inl (ValueError ''SNS_TOPIC_ARN environment variable not set'')"
  by (auto simp add: validate_config_def falsy_def split: option.splits)

lemma validate_config_complete:
  "b \<noteq> [] \<Longrightarrow> a \<noteq> [] \<Longrightarrow> validate_config (Some b) (Some a) = Inr (b, a)"
  by (simp add: validate_config_def)

lemma isinstance_simps [simp]:
  "isinstance (ValueError m) ''ValueError''"
  "\<not> isinstance (ValueError m) ''KeyError''"
  "isinstance (KeyError m) ''KeyError''"
  "\<not> isinstance (IndexError m) ''KeyError''"
  "\<not> isinstance (IndexError m) ''ValueError''"
  "\<not> isinstance (TypeError m) ''KeyError''"
  "\<not> isinstance (TypeError m) ''ValueError''"
  by (simp_all add: isinstance_def ValueError_def KeyError_def IndexError_def TypeError_def)

lemma read_config_simps [simp]:
  "ticks (read_config env) = 0"
  "arn_or_None (read_config env) = environ env ''SNS_TOPIC_ARN''"
  by (simp_all add: ticks_def arn_or_None_def read_config_def)

lemma handler_config_error:
  assumes "validate_config (environ env ''BACKUP_BUCKET'') (environ env ''SNS_TOPIC_ARN'')
             = Inl (ValueError m)"
  shows "lambda_handler env ev =
     notify_and_raise env (ValueError m) (read_config env) [] ConfigurationError
       (''Configuration error: '' @ m) ''Configuration Error''"
proof -
  have tb: "try_body env ev = (Inl (ValueError m), read_config env, [])"
    using assms by (simp add: try_body_def)
  show ?thesis
    by (simp add: lambda_handler_def tb) (simp add: ValueError_def)
qed

text \<open>
  Claim C10. \<open>send_failure_notification\<close> returns normally on every input: with no
  topic (\<open>None\<close> or the empty string) it returns at once and publishes nothing, and
  when its publish raises, the exception is caught and the function still returns.
\<close>

theorem send_failure_notification_never_raises:
  "fst (send_failure_notification env t arn msg cat) = Inr () \<and>
   (falsy arn \<longrightarrow> send_failure_notification env t arn msg cat = (Inr (), [])) \<and>
   (arn = Some a \<and> a \<noteq> [] \<and> publish env (sfn_request env t a msg cat) = Inl e \<longrightarrow>
      send_failure_notification env t arn msg cat =
        (Inr (), [Publish (sfn_request env t a msg cat)]))"
  by (auto simp add: send_failure_notification_def sfn_try_def Let_def falsy_def
      split: option.split sum.split)

theorem send_failure_notification_never_raises_witness:
  "send_failure_notification (scenario_env\<lparr>publish := publish_fails\<rparr>) 0 None
     ''Configuration error: x'' ''Configuration Error'' = (Inr (), []) \<and>
   send_failure_notification (scenario_env\<lparr>publish := publish_fails\<rparr>) 0 (Some ''topic1'')
     ''Configuration error: x'' ''Configuration Error'' =
     (Inr (), [Publish (sfn_request (scenario_env\<lparr>publish := publish_fails\<rparr>) 0 ''topic1''
        ''Configuration error: x'' ''Configuration Error'')])"
  using send_failure_notification_never_raises
          [of "scenario_env\<lparr>publish := publish_fails\<rparr>" 0 None
              "''Configuration error: x''" "''Configuration Error''" "''topic1''" client_error]
        send_failure_notification_never_raises
          [of "scenario_env\<lparr>publish := publish_fails\<rparr>" 0 "Some ''topic1''"
              "''Configuration error: x''" "''Configuration Error''" "''topic1''" client_error]
  by (simp add: falsy_def publish_fails_def)

text \<open>
  Claim C3. Whatever the event, when \<open>BACKUP_BUCKET\<close> or \<open>SNS_TOPIC_ARN\<close> is not set
  or is empty, the handler raises the \<open>ValueError\<close> that names the variable, the
  \<open>except ValueError\<close> clause (\<open>ConfigurationError\<close>) handles it, no copy is
  requested, and the whole run is the same for every event: the check comes before
  the event is read.
\<close>

theorem config_error_before_any_call:
  assumes "falsy (environ env ''BACKUP_BUCKET'') \<or> falsy (environ env ''SNS_TOPIC_ARN'')"
  shows "result (lambda_handler env ev) =
           Inl (ValueError ((if falsy (environ env ''BACKUP_BUCKET'') then ''BACKUP_BUCKET''
                             else ''SNS_TOPIC_ARN'') @ '' environment variable not set'')) \<and>
         handled (lambda_handler env ev) = Some ConfigurationError \<and>
         (\<forall>r. CopyObject r \<notin> set (calls (lambda_handler env ev))) \<and>
         lambda_handler env ev = lambda_handler env ev'"
proof -
  define m where
    "m = (if falsy (environ env ''BACKUP_BUCKET'') then ''BACKUP_BUCKET''
          else ''SNS_TOPIC_ARN'') @ '' environment variable not set''"
  have v: "validate_config (environ env ''BACKUP_BUCKET'') (environ env ''SNS_TOPIC_ARN'')
             = Inl (ValueError m)"
    using assms
      validate_config_falsy [of "environ env ''BACKUP_BUCKET''" "environ env ''SNS_TOPIC_ARN''"]
    by (auto simp add: m_def)
  have "\<forall>r. CopyObject r \<notin> set (snd (send_failure_notification env 0
           (environ env ''SNS_TOPIC_ARN'') (''Configuration error: '' @ m) ''Configuration Error''))"
    by (simp add: sfn_calls split: option.split)
  then show ?thesis
    unfolding handler_config_error [OF v] notify_and_raise_simps m_def [symmetric]
    by simp
qed

theorem config_error_before_any_call_witness:
  "falsy (environ (scenario_env\<lparr>environ := config None (Some ''topic1'')\<rparr>) ''BACKUP_BUCKET'') \<and>
   result (lambda_handler (scenario_env\<lparr>environ := config None (Some ''topic1'')\<rparr>) scenario_event) =
     Inl (ValueError ''BACKUP_BUCKET environment variable not set'') \<and>
   handled (lambda_handler (scenario_env\<lparr>environ := config None (Some ''topic1'')\<rparr>) scenario_event)
     = Some ConfigurationError"
proof -
  let ?env = "scenario_env\<lparr>environ := config None (Some ''topic1'')\<rparr>"
  have h: "falsy (environ ?env ''BACKUP_BUCKET'')"
    by (simp add: falsy_def config_def)
  then have "falsy (environ ?env ''BACKUP_BUCKET'') \<or> falsy (environ ?env ''SNS_TOPIC_ARN'')" ..
  from config_error_before_any_call [OF this, of scenario_event event_without_key]
  have "result (lambda_handler ?env scenario_event) =
          Inl (ValueError ((if falsy (environ ?env ''BACKUP_BUCKET'') then ''BACKUP_BUCKET''
                            else ''SNS_TOPIC_ARN'') @ '' environment variable not set''))"
    and "handled (lambda_handler ?env scenario_event) = Some ConfigurationError"
    by blast+
  with h show ?thesis by simp
qed

section \<open>The shape of a run\<close>

lemma handler_result: "result (lambda_handler env ev) = fst (try_body env ev)"
  by (auto simp add: lambda_handler_def notify_and_raise_simps split: prod.split sum.split)

lemma handler_handled:
  "handled (lambda_handler env ev) =
     (case fst (try_body env ev) of Inr r \<Rightarrow> None | Inl e \<Rightarrow> Some (classify e))"
  by (auto simp add: lambda_handler_def notify_and_raise_simps classify_def split: prod.split sum.split)

lemma notify_try_calls:
  "snd (notify_try env e l) =
     (case arn_or_None l of None \<Rightarrow> []
      | Some a \<Rightarrow> if a = [] then [] else [Publish (failure_request env e l a)])"
  by (simp add: notify_try_def arn_or_None_def Let_def split: option.split)

text \<open>The calls of a failed run: those of the body, then the notification of the clause.\<close>

lemma handler_calls_failure:
  assumes "try_body env ev = (Inl e, l, cs)"
  shows "calls (lambda_handler env ev) = cs @
     (case classify e of
        MalformedEvent \<Rightarrow> snd (send_failure_notification env (ticks l) (arn_or_None l)
          (''Invalid event structure - missing required field: '' @ exn_str e) ''Invalid Event Data'')
      | ConfigurationError \<Rightarrow> snd (send_failure_notification env (ticks l) (arn_or_None l)
          (''Configuration error: '' @ exn_str e) ''Configuration Error'')
      | StorageOperationError \<Rightarrow> snd (notify_try env e l))"
  using assms
  by (auto simp add: lambda_handler_def notify_and_raise_simps classify_def split: prod.split sum.split)

lemma try_body_complete:
  assumes "environ env ''BACKUP_BUCKET'' = Some bb" "bb \<noteq> []"
    "environ env ''SNS_TOPIC_ARN'' = Some arn" "arn \<noteq> []"
  shows "try_body env ev =
     (case extract_event ev (read_config env) of
        (Inl e, l) \<Rightarrow> (Inl e, l, [])
      | (Inr (source_bucket, object_key, file_size), l) \<Rightarrow>
          perform_backup env bb arn source_bucket object_key file_size l)"
  using assms by (simp add: try_body_def validate_config_complete)

lemma extract_event_locals:
  "extract_event ev l = (r, l') \<Longrightarrow>
     loc_sns_topic_arn l' = loc_sns_topic_arn l \<and> loc_backup_bucket l' = loc_backup_bucket l \<and>
     loc_current_time l' = loc_current_time l"
  by (auto simp add: extract_event_def Let_def split: sum.splits)

lemma extract_event_read_config:
  assumes "extract_event ev (read_config env) = (r, l)"
  shows "arn_or_None l = environ env ''SNS_TOPIC_ARN''" "ticks l = 0"
  using extract_event_locals [OF assms]
  by (simp_all add: arn_or_None_def ticks_def read_config_def)

lemma perform_backup_copy_error:
  assumes "copy_object env (copy_request_of bb sb ok) = Inl e"
  shows "perform_backup env bb arn sb ok fs l = (Inl e, l, [CopyObject (copy_request_of bb sb ok)])"
  using assms by (simp add: perform_backup_def)

lemma classify_simps [simp]:
  "classify (ValueError m) = ConfigurationError"
  "classify (KeyError m) = MalformedEvent"
  "classify (IndexError m) = StorageOperationError"
  "classify (TypeError m) = StorageOperationError"
  by (simp_all add: classify_def)

lemma classify_generic:
  "\<not> isinstance e ''KeyError'' \<Longrightarrow> \<not> isinstance e ''ValueError'' \<Longrightarrow>
     classify e = StorageOperationError"
  by (simp add: classify_def)

section \<open>The scenario inputs, evaluated\<close>

lemma scenario_paths:
  "lookup_path (s3_event obj) bucket_name_path = Inr (JStr ''src'')"
  "lookup_path (s3_event obj) object_key_path = subscript (JDict obj) (KStr ''key'')"
  "lookup_path (s3_event obj) object_size_path = subscript (JDict obj) (KStr ''size'')"
  "lookup_path (s3_event obj) event_time_path = Inr (JStr ''2024-01-01T00:00:00Z'')"
  by (simp_all add: s3_event_def bucket_name_path_def object_key_path_def object_size_path_def
     event_time_path_def py_index_def split: sum.split)

lemma scenario_size_fits: "\<not> truediv_overflows 2048 10"
  by (simp add: truediv_overflows_def round53_def bitlen.simps)

lemma scenario_extract:
  "extract_event scenario_event l =
     (Inr (JStr ''src'', JStr ''a.txt'', JInt 2048),
      l\<lparr>loc_source_bucket := Some (JStr ''src''), loc_object_key := Some (JStr ''a.txt''),
        loc_file_size := Some (JInt 2048),
        loc_event_time := Some (JStr ''2024-01-01T00:00:00Z'')\<rparr>)"
  by (simp add: extract_event_def scenario_event_def scenario_paths truediv_check_def as_int_def
      scenario_size_fits)

lemma scenario_config [simp]:
  "environ (scenario_env\<lparr>copy_object := c\<rparr>) = config (Some ''dst'') (Some ''topic1'')"
  "environ (scenario_env\<lparr>publish := p\<rparr>) = config (Some ''dst'') (Some ''topic1'')"
  "environ (scenario_env\<lparr>copy_object := c, publish := p\<rparr>) = config (Some ''dst'') (Some ''topic1'')"
  "environ scenario_env = config (Some ''dst'') (Some ''topic1'')"
  "config b a ''BACKUP_BUCKET'' = b"
  "config b a ''SNS_TOPIC_ARN'' = a"
  by (simp_all add: scenario_env_def config_def)

lemma unicode_error_class [simp]:
  "\<not> isinstance unicode_error ''KeyError''" "isinstance unicode_error ''ValueError''"
  "\<not> isinstance client_error ''KeyError''" "\<not> isinstance client_error ''ValueError''"
  by (simp_all add: unicode_error_def client_error_def isinstance_def)

section \<open>A failing copy\<close>

text \<open>
  What holds of every failing copy. When the configuration is complete, the event is
  read and the copy raises \<open>e\<close>, the handler raises that same \<open>e\<close>, whatever the
  publish of the notification does (the statement holds for every \<open>publish\<close>, also
  one that raises); it makes exactly one publish after the copy, to the configured
  topic; and when \<open>e\<close> is neither a \<open>KeyError\<close> nor a \<open>ValueError\<close> the clause is
  the last one and the message is the detailed failure message.
\<close>

lemma failing_copy_reraised:
  assumes "environ env ''BACKUP_BUCKET'' = Some bb" "bb \<noteq> []"
    and "environ env ''SNS_TOPIC_ARN'' = Some arn" "arn \<noteq> []"
    and "extract_event ev (read_config env) = (Inr (sb, ok, fs), l)"
    and "copy_object env (copy_request_of bb sb ok) = Inl e"
  shows "result (lambda_handler env ev) = Inl e \<and>
         (\<exists>p. calls (lambda_handler env ev) = [CopyObject (copy_request_of bb sb ok), Publish p] \<and>
              TopicArn p = arn) \<and>
         (\<not> isinstance e ''KeyError'' \<and> \<not> isinstance e ''ValueError'' \<longrightarrow>
            handled (lambda_handler env ev) = Some StorageOperationError \<and>
            calls (lambda_handler env ev) =
              [CopyObject (copy_request_of bb sb ok), Publish (failure_request env e l arn)])"
proof -
  have tb: "try_body env ev = (Inl e, l, [CopyObject (copy_request_of bb sb ok)])"
    using assms by (simp add: try_body_complete perform_backup_copy_error)
  have l: "arn_or_None l = Some arn" "ticks l = 0"
    using extract_event_read_config [OF assms(5)] assms(3) by simp_all
  have r: "result (lambda_handler env ev) = Inl e"
    by (simp add: handler_result tb)
  have h: "handled (lambda_handler env ev) = Some (classify e)"
    by (simp add: handler_handled tb)
  have c: "calls (lambda_handler env ev) = [CopyObject (copy_request_of bb sb ok)] @
     (case classify e of
        MalformedEvent \<Rightarrow> [Publish (sfn_request env 0 arn
          (''Invalid event structure - missing required field: '' @ exn_str e) ''Invalid Event Data'')]
      | ConfigurationError \<Rightarrow> [Publish (sfn_request env 0 arn
          (''Configuration error: '' @ exn_str e) ''Configuration Error'')]
      | StorageOperationError \<Rightarrow> [Publish (failure_request env e l arn)])"
    using assms(4) by (simp add: handler_calls_failure [OF tb] l sfn_calls notify_try_calls
         split: error_kind.split)
  have p: "\<exists>p. calls (lambda_handler env ev) = [CopyObject (copy_request_of bb sb ok), Publish p] \<and>
              TopicArn p = arn"
    unfolding c by (cases "classify e") (simp_all add: sfn_request_def failure_request_def)
  show ?thesis
    using r h p c by (simp add: classify_generic)
qed

text \<open>A copy and a publish that both fail with a client error.\<close>

lemma failing_copy_reraised_example:
  "result (lambda_handler (scenario_env\<lparr>copy_object := copy_fails client_error,
       publish := publish_fails\<rparr>) scenario_event) = Inl client_error \<and>
   handled (lambda_handler (scenario_env\<lparr>copy_object := copy_fails client_error,
       publish := publish_fails\<rparr>) scenario_event) = Some StorageOperationError"
proof -
  let ?env = "scenario_env\<lparr>copy_object := copy_fails client_error, publish := publish_fails\<rparr>"
  have "environ ?env ''BACKUP_BUCKET'' = Some ''dst''" "''dst'' \<noteq> []"
    "environ ?env ''SNS_TOPIC_ARN'' = Some ''topic1''" "''topic1'' \<noteq> []"
    "copy_object ?env (copy_request_of ''dst'' (JStr ''src'') (JStr ''a.txt'')) = Inl client_error"
    by (simp_all add: copy_fails_def)
  from failing_copy_reraised [OF this(1-4) scenario_extract this(5)] unicode_error_class(3,4)
  show ?thesis by blast
qed

text \<open>
  Claim C2 at the scenario event, with the configuration of the scenario and a copy
  that raises a \<open>UnicodeEncodeError\<close>, which is a \<open>ValueError\<close>. The clause
  \<open>except ValueError\<close>, written for the configuration checks, comes before
  \<open>except Exception\<close> and catches it: the handler still raises the original error
  and publishes once, but the failed copy is reported as a configuration error, under
  the subject \<open>AWS Backup System Error - Configuration Error\<close>, and not through the
  generic clause with the detailed failure message.
\<close>

theorem copy_value_error_reported_as_configuration:
  "copy_object (scenario_env\<lparr>copy_object := copy_fails unicode_error\<rparr>)
     (copy_request_of ''dst'' (JStr ''src'') (JStr ''a.txt'')) = Inl unicode_error \<and>
   result (lambda_handler (scenario_env\<lparr>copy_object := copy_fails unicode_error\<rparr>) scenario_event)
     = Inl unicode_error \<and>
   handled (lambda_handler (scenario_env\<lparr>copy_object := copy_fails unicode_error\<rparr>) scenario_event)
     = Some ConfigurationError \<and>
   handled (lambda_handler (scenario_env\<lparr>copy_object := copy_fails unicode_error\<rparr>) scenario_event)
     \<noteq> Some StorageOperationError \<and>
   calls (lambda_handler (scenario_env\<lparr>copy_object := copy_fails unicode_error\<rparr>) scenario_event)
     = [CopyObject (copy_request_of ''dst'' (JStr ''src'') (JStr ''a.txt'')),
        Publish \<lparr>TopicArn = ''topic1'',
                  Subject = ''AWS Backup System Error - Configuration Error'',
                  Message = sfn_message ''2024-01-01 00:00:00 UTC''
                    ''Configuration error: surrogates not allowed'' ''Configuration Error''\<rparr>]"
proof -
  let ?env = "scenario_env\<lparr>copy_object := copy_fails unicode_error\<rparr>"
  let ?l = "(read_config ?env)\<lparr>loc_source_bucket := Some (JStr ''src''),
      loc_object_key := Some (JStr ''a.txt''), loc_file_size := Some (JInt 2048),
      loc_event_time := Some (JStr ''2024-01-01T00:00:00Z'')\<rparr>"
  have cp: "copy_object ?env (copy_request_of ''dst'' (JStr ''src'') (JStr ''a.txt'')) = Inl unicode_error"
    by (simp add: copy_fails_def)
  have tb: "try_body ?env scenario_event =
      (Inl unicode_error, ?l, [CopyObject (copy_request_of ''dst'' (JStr ''src'') (JStr ''a.txt''))])"
    by (simp add: try_body_complete [of ?env "''dst''" "''topic1''"] scenario_extract
        perform_backup_copy_error [OF cp])
  have l: "arn_or_None ?l = Some ''topic1''" "ticks ?l = 0"
    using extract_event_read_config [of scenario_event ?env _ ?l] scenario_extract [of "read_config ?env"]
    by simp_all
  have k: "classify unicode_error = ConfigurationError"
    by (simp add: classify_def)
  have m: "exn_str unicode_error = ''surrogates not allowed''"
    by (simp add: unicode_error_def)
  have t: "now scenario_env 0 = ''2024-01-01 00:00:00 UTC''"
    by (simp add: scenario_env_def clock_def)
  have c: "calls (lambda_handler ?env scenario_event) =
      [CopyObject (copy_request_of ''dst'' (JStr ''src'') (JStr ''a.txt'')),
       Publish \<lparr>TopicArn = ''topic1'',
                 Subject = ''AWS Backup System Error - Configuration Error'',
                 Message = sfn_message ''2024-01-01 00:00:00 UTC''
                   ''Configuration error: surrogates not allowed'' ''Configuration Error''\<rparr>]"
    by (simp add: handler_calls_failure [OF tb] k l m t sfn_calls sfn_request_def)
  have "result (lambda_handler ?env scenario_event) = Inl unicode_error"
    "handled (lambda_handler ?env scenario_event) = Some ConfigurationError"
    by (simp_all add: handler_result handler_handled tb k)
  with cp c show ?thesis by simp
qed

section \<open>A successful run\<close>

lemma overflow_mono: "\<not> truediv_overflows n 10 \<Longrightarrow> \<not> truediv_overflows n 20"
proof -
  have "(2::nat) ^ (1024 + 10) \<le> 2 ^ (1024 + 20)"
    by (rule power_increasing) simp_all
  then show "\<not> truediv_overflows n 10 \<Longrightarrow> \<not> truediv_overflows n 20"
    unfolding truediv_overflows_def by linarith
qed

lemma success_message_returns:
  assumes "as_int fs = Some n" "\<not> truediv_overflows n 10"
  shows "success_message env ok fs sb bb t =
           format_success_message (py_str env ok) n (py_str env sb) bb t"
    and "\<exists>msg. format_success_message (py_str env ok) n (py_str env sb) bb t = Inr msg"
  using assms overflow_mono [OF assms(2)]
  by (simp_all add: success_message_def format_success_message_def)

lemma extract_event_resolved:
  assumes "lookup_path ev bucket_name_path = Inr sb" "lookup_path ev object_key_path = Inr ok"
    "lookup_path ev object_size_path = Inr fs" "lookup_path ev event_time_path = Inr et"
    "as_int fs = Some n" "\<not> truediv_overflows n 10"
  shows "extract_event ev l =
     (Inr (sb, ok, fs),
      l\<lparr>loc_source_bucket := Some sb, loc_object_key := Some ok, loc_file_size := Some fs,
        loc_event_time := Some et\<rparr>)"
  using assms by (simp add: extract_event_def truediv_check_def)

lemma perform_backup_result:
  assumes "success_message env ok fs sb bb (now env 0) = Inr msg"
  shows "fst (perform_backup env bb arn sb ok fs l) =
     (case copy_object env (copy_request_of bb sb ok) of
        Inl e \<Rightarrow> Inl e
      | Inr cr \<Rightarrow>
     (case etag_of cr of
        Inl e \<Rightarrow> Inl e
      | Inr _ \<Rightarrow>
     (case publish env (success_request arn msg) of
        Inl e \<Rightarrow> Inl e
      | Inr pr \<Rightarrow>
     (case map_of pr ''MessageId'' of
        None \<Rightarrow> Inl (KeyError (squote @ ''MessageId'' @ squote))
      | Some _ \<Rightarrow> Inr (success_response env bb sb ok fs (now env 0))))))"
  using assms by (simp add: perform_backup_def Let_def split: sum.split option.split)

text \<open>
  Claim C1, as the code has it. With a complete configuration and an event whose four
  fields resolve, the size being a number that true division accepts, the handler
  returns a response exactly when the copy returns, its response holds a dictionary (or
  nothing) under \<open>CopyObjectResult\<close>, and the publish of the success message returns
  a response with a \<open>MessageId\<close>. The response has status 200, the destination is
  the backup bucket, a slash and the object key, and \<open>size_bytes\<close> is the size of the
  event.
\<close>

theorem success_iff_copy_and_publish:
  assumes "environ env ''BACKUP_BUCKET'' = Some bb" "bb \<noteq> []"
    and "environ env ''SNS_TOPIC_ARN'' = Some arn" "arn \<noteq> []"
    and "lookup_path ev bucket_name_path = Inr sb" "lookup_path ev object_key_path = Inr ok"
    and "lookup_path ev object_size_path = Inr fs" "lookup_path ev event_time_path = Inr et"
    and "as_int fs = Some n" "\<not> truediv_overflows n 10"
  shows "\<exists>msg. format_success_message (py_str env ok) n (py_str env sb) bb (now env 0) = Inr msg \<and>
     ((\<exists>r. result (lambda_handler env ev) = Inr r) \<longleftrightarrow>
      (\<exists>cr t pr m. copy_object env (copy_request_of bb sb ok) = Inr cr \<and> etag_of cr = Inr t \<and>
         publish env (success_request arn msg) = Inr pr \<and> map_of pr ''MessageId'' = Some m)) \<and>
     (\<forall>r. result (lambda_handler env ev) = Inr r \<longrightarrow>
          r = success_response env bb sb ok fs (now env 0) \<and> statusCode r = 200 \<and>
          map_of (body r) ''destination'' = Some (JStr (bb @ ''/'' @ py_str env ok)) \<and>
          map_of (body r) ''size_bytes'' = Some fs)"
proof -
  obtain msg where msg: "format_success_message (py_str env ok) n (py_str env sb) bb (now env 0) = Inr msg"
    using success_message_returns(2) [OF assms(9,10)] by blast
  then have sm: "success_message env ok fs sb bb (now env 0) = Inr msg"
    by (simp add: success_message_returns(1) [OF assms(9,10)])
  define l where "l = (read_config env)\<lparr>loc_source_bucket := Some sb, loc_object_key := Some ok,
     loc_file_size := Some fs, loc_event_time := Some et\<rparr>"
  have "try_body env ev = perform_backup env bb arn sb ok fs l"
    by (simp add: try_body_complete [OF assms(1-4)] extract_event_resolved [OF assms(5-10)] l_def)
  then have res: "result (lambda_handler env ev) =
     (case copy_object env (copy_request_of bb sb ok) of
        Inl e \<Rightarrow> Inl e
      | Inr cr \<Rightarrow>
     (case etag_of cr of
        Inl e \<Rightarrow> Inl e
      | Inr _ \<Rightarrow>
     (case publish env (success_request arn msg) of
        Inl e \<Rightarrow> Inl e
      | Inr pr \<Rightarrow>
     (case map_of pr ''MessageId'' of
        None \<Rightarrow> Inl (KeyError (squote @ ''MessageId'' @ squote))
      | Some _ \<Rightarrow> Inr (success_response env bb sb ok fs (now env 0))))))"
    by (simp add: handler_result perform_backup_result [OF sm])
  have iff: "(\<exists>r. result (lambda_handler env ev) = Inr r) \<longleftrightarrow>
      (\<exists>cr t pr m. copy_object env (copy_request_of bb sb ok) = Inr cr \<and> etag_of cr = Inr t \<and>
         publish env (success_request arn msg) = Inr pr \<and> map_of pr ''MessageId'' = Some m)"
    unfolding res by (auto split: sum.splits option.splits)
  have val: "\<forall>r. result (lambda_handler env ev) = Inr r \<longrightarrow>
          r = success_response env bb sb ok fs (now env 0)"
    unfolding res by (auto split: sum.splits option.splits)
  have "statusCode (success_response env bb sb ok fs (now env 0)) = 200"
    "map_of (body (success_response env bb sb ok fs (now env 0))) ''destination'' =
       Some (JStr (bb @ ''/'' @ py_str env ok))"
    "map_of (body (success_response env bb sb ok fs (now env 0))) ''size_bytes'' = Some fs"
    by (simp_all add: success_response_def)
  with msg iff val show ?thesis by blast
qed

text \<open>
  The scenario of the specification: bucket \<open>src\<close>, key \<open>a.txt\<close>, size 2048, backup
  bucket \<open>dst\<close>, copy and publish succeed.
\<close>

theorem success_iff_copy_and_publish_witness:
  "result (lambda_handler scenario_env scenario_event) =
     Inr \<lparr>statusCode = 200,
          body = [(''message'', JStr ''Backup completed successfully''),
                  (''source'', JStr ''src/a.txt''),
                  (''destination'', JStr ''dst/a.txt''),
                  (''size_bytes'', JInt 2048),
                  (''timestamp'', JStr ''2024-01-01 00:00:00 UTC'')]\<rparr>"
proof -
  have cfg: "environ scenario_env ''BACKUP_BUCKET'' = Some ''dst''" "''dst'' \<noteq> []"
    "environ scenario_env ''SNS_TOPIC_ARN'' = Some ''topic1''" "''topic1'' \<noteq> []"
    by simp_all
  have ev: "lookup_path scenario_event bucket_name_path = Inr (JStr ''src'')"
    "lookup_path scenario_event object_key_path = Inr (JStr ''a.txt'')"
    "lookup_path scenario_event object_size_path = Inr (JInt 2048)"
    "lookup_path scenario_event event_time_path = Inr (JStr ''2024-01-01T00:00:00Z'')"
    "as_int (JInt 2048) = Some 2048"
    by (simp_all add: scenario_event_def scenario_paths as_int_def)
  from success_iff_copy_and_publish [OF cfg ev scenario_size_fits]
  obtain msg where
    iff: "(\<exists>r. result (lambda_handler scenario_env scenario_event) = Inr r) \<longleftrightarrow>
      (\<exists>cr t pr m. copy_object scenario_env (copy_request_of ''dst'' (JStr ''src'') (JStr ''a.txt'')) = Inr cr \<and>
         etag_of cr = Inr t \<and> publish scenario_env (success_request ''topic1'' msg) = Inr pr \<and>
         map_of pr ''MessageId'' = Some m)"
    and val: "\<forall>r. result (lambda_handler scenario_env scenario_event) = Inr r \<longrightarrow>
      r = success_response scenario_env ''dst'' (JStr ''src'') (JStr ''a.txt'') (JInt 2048)
            (now scenario_env 0)"
    by blast
  have "copy_object scenario_env (copy_request_of ''dst'' (JStr ''src'') (JStr ''a.txt'')) =
          Inr [(''CopyObjectResult'', JDict [(''ETag'', JStr ''etag-1'')])]"
    "etag_of [(''CopyObjectResult'', JDict [(''ETag'', JStr ''etag-1'')])] = Inr (JStr ''etag-1'')"
    "publish scenario_env (success_request ''topic1'' msg) = Inr [(''MessageId'', JStr ''msg-1'')]"
    "map_of [(''MessageId'', JStr ''msg-1'')] ''MessageId'' = Some (JStr ''msg-1'')"
    by (simp_all add: scenario_env_def copy_ok_def publish_ok_def etag_of_def)
  with iff obtain r where r: "result (lambda_handler scenario_env scenario_event) = Inr r"
    by blast
  with val have "r = success_response scenario_env ''dst'' (JStr ''src'') (JStr ''a.txt'') (JInt 2048)
            (now scenario_env 0)"
    by blast
  with r show ?thesis
    by (simp add: success_response_def py_str_def scenario_env_def clock_def)
qed

text \<open>
  The claim as stated (success if and only if the copy succeeds) fails when the publish
  of the success message raises: the copy has succeeded and the handler raises.
\<close>

theorem success_iff_copy_counterexample:
  "copy_object (scenario_env\<lparr>publish := publish_fails\<rparr>)
     (copy_request_of ''dst'' (JStr ''src'') (JStr ''a.txt'')) =
     Inr [(''CopyObjectResult'', JDict [(''ETag'', JStr ''etag-1'')])] \<and>
   result (lambda_handler (scenario_env\<lparr>publish := publish_fails\<rparr>) scenario_event) =
     Inl client_error"
proof -
  let ?env = "scenario_env\<lparr>publish := publish_fails\<rparr>"
  have cp: "copy_object ?env (copy_request_of ''dst'' (JStr ''src'') (JStr ''a.txt'')) =
     Inr [(''CopyObjectResult'', JDict [(''ETag'', JStr ''etag-1'')])]"
    by (simp add: scenario_env_def copy_ok_def)
  obtain msg where sm: "success_message ?env (JStr ''a.txt'') (JInt 2048) (JStr ''src'') ''dst'' (now ?env 0) = Inr msg"
    using success_message_returns [of "JInt 2048" 2048 ?env "JStr ''a.txt''" "JStr ''src''" "''dst''" "now ?env 0"]
      scenario_size_fits by (auto simp add: as_int_def)
  have pb: "fst (perform_backup ?env ''dst'' ''topic1'' (JStr ''src'') (JStr ''a.txt'') (JInt 2048) l)
              = Inl client_error" for l
    unfolding perform_backup_result [OF sm] cp by (simp add: etag_of_def publish_fails_def)
  have "fst (try_body ?env scenario_event) = Inl client_error"
    by (simp add: try_body_complete [of ?env "''dst''" "''topic1''"] scenario_extract pb)
  with cp show ?thesis
    by (simp add: handler_result)
qed

section \<open>Outcome of the handler\<close>

lemma perform_backup_status:
  "fst (perform_backup env bb arn sb ok fs l) = Inr r \<Longrightarrow> statusCode r = 200"
  by (auto simp add: perform_backup_def Let_def success_response_def split: sum.splits)

lemma try_body_status: "fst (try_body env ev) = Inr r \<Longrightarrow> statusCode r = 200"
  by (auto simp add: try_body_def dest: perform_backup_status split: sum.splits prod.splits)

lemma scenario_try_body:
  "fst (try_body scenario_env scenario_event) =
     Inr (success_response scenario_env ''dst'' (JStr ''src'') (JStr ''a.txt'') (JInt 2048)
            (now scenario_env 0))"
proof -
  obtain msg where sm: "success_message scenario_env (JStr ''a.txt'') (JInt 2048) (JStr ''src'')
      ''dst'' (now scenario_env 0) = Inr msg"
    using success_message_returns [of "JInt 2048" 2048 scenario_env "JStr ''a.txt''"
        "JStr ''src''" "''dst''" "now scenario_env 0"] scenario_size_fits
    by (auto simp add: as_int_def)
  have "copy_object scenario_env r = copy_ok r" "publish scenario_env p = publish_ok p" for r p
    by (simp_all add: scenario_env_def)
  then have "fst (perform_backup scenario_env ''dst'' ''topic1'' (JStr ''src'') (JStr ''a.txt'')
      (JInt 2048) l) =
     Inr (success_response scenario_env ''dst'' (JStr ''src'') (JStr ''a.txt'') (JInt 2048)
            (now scenario_env 0))" for l
    unfolding perform_backup_result [OF sm] by (simp add: copy_ok_def publish_ok_def etag_of_def)
  then show ?thesis
    by (simp add: try_body_complete [of scenario_env "''dst''" "''topic1''"] scenario_extract)
qed


text \<open>
  Claim C5. The handler ends in one of two ways: it returns a response, which has status
  200, or it raises. What it returns or raises is what the body of its \<open>try\<close>
  returned or raised: no \<open>except\<close> clause turns a failure into a return value or
  into another exception, and every failure passes through one of the three clauses.
\<close>

theorem returns_success_or_raises:
  "result (lambda_handler env ev) = fst (try_body env ev) \<and>
   (result (lambda_handler env ev) = Inr r \<longrightarrow>
      statusCode r = 200 \<and> handled (lambda_handler env ev) = None) \<and>
   (result (lambda_handler env ev) = Inl e \<longrightarrow>
      handled (lambda_handler env ev) = Some (classify e))"
  using try_body_status [of env ev r]
  by (simp add: handler_result handler_handled)

theorem returns_success_or_raises_witness:
  "statusCode (success_response scenario_env ''dst'' (JStr ''src'') (JStr ''a.txt'') (JInt 2048)
     (now scenario_env 0)) = 200 \<and>
   handled (lambda_handler scenario_env scenario_event) = None \<and>
   result (lambda_handler (scenario_env\<lparr>copy_object := copy_fails client_error\<rparr>) scenario_event)
     = Inl client_error \<and>
   handled (lambda_handler (scenario_env\<lparr>copy_object := copy_fails client_error\<rparr>) scenario_event)
     = Some StorageOperationError"
proof -
  let ?env = "scenario_env\<lparr>copy_object := copy_fails client_error\<rparr>"
  let ?r = "success_response scenario_env ''dst'' (JStr ''src'') (JStr ''a.txt'') (JInt 2048)
     (now scenario_env 0)"
  have cp: "copy_object ?env (copy_request_of ''dst'' (JStr ''src'') (JStr ''a.txt'')) = Inl client_error"
    by (simp add: copy_fails_def)
  have tb: "fst (try_body ?env scenario_event) = Inl client_error"
    by (simp add: try_body_complete [of ?env "''dst''" "''topic1''"] scenario_extract
        perform_backup_copy_error [OF cp])
  from returns_success_or_raises [of ?env scenario_event ?r client_error] tb
  have "result (lambda_handler ?env scenario_event) = Inl client_error"
    "handled (lambda_handler ?env scenario_event) = Some StorageOperationError"
    by (simp_all add: classify_generic)
  moreover from returns_success_or_raises [of scenario_env scenario_event ?r client_error]
    scenario_try_body
  have "statusCode ?r = 200" "handled (lambda_handler scenario_env scenario_event) = None"
    by simp_all
  ultimately show ?thesis by simp
qed

section \<open>A missing notification topic\<close>

text \<open>
  Claim C6, as the code has it. Whatever the event, when \<open>SNS_TOPIC_ARN\<close> is not set
  or empty the handler raises a \<open>ValueError\<close> handled as a configuration error and
  makes no call at all, so no notification is published. The message names
  \<open>SNS_TOPIC_ARN\<close> when \<open>BACKUP_BUCKET\<close> is set; when \<open>BACKUP_BUCKET\<close> is missing
  too, the first check fails first and the message names \<open>BACKUP_BUCKET\<close>.
\<close>

theorem missing_topic:
  assumes "falsy (environ env ''SNS_TOPIC_ARN'')"
  shows "\<exists>m. result (lambda_handler env ev) = Inl (ValueError m) \<and>
     handled (lambda_handler env ev) = Some ConfigurationError \<and>
     calls (lambda_handler env ev) = [] \<and>
     m = (if falsy (environ env ''BACKUP_BUCKET'') then ''BACKUP_BUCKET environment variable not set''
          else ''SNS_TOPIC_ARN environment variable not set'') \<and>
     (\<not> falsy (environ env ''BACKUP_BUCKET'') \<longrightarrow> sublist ''SNS_TOPIC_ARN'' m)"
proof -
  define m where "m = (if falsy (environ env ''BACKUP_BUCKET'') then ''BACKUP_BUCKET environment variable not set''
          else ''SNS_TOPIC_ARN environment variable not set'')"
  have v: "validate_config (environ env ''BACKUP_BUCKET'') (environ env ''SNS_TOPIC_ARN'')
             = Inl (ValueError m)"
    using assms
      validate_config_falsy [of "environ env ''BACKUP_BUCKET''" "environ env ''SNS_TOPIC_ARN''"]
    by (auto simp add: m_def)
  have c: "snd (send_failure_notification env 0 (environ env ''SNS_TOPIC_ARN'')
           (''Configuration error: '' @ m) ''Configuration Error'') = []"
    using assms by (simp add: sfn_calls falsy_def split: option.splits)
  have "sublist ''SNS_TOPIC_ARN'' (''SNS_TOPIC_ARN'' @ '' environment variable not set'')"
    by (rule sublist_append_rightI)
  then have s: "\<not> falsy (environ env ''BACKUP_BUCKET'') \<longrightarrow> sublist ''SNS_TOPIC_ARN'' m"
    by (simp add: m_def)
  show ?thesis
    unfolding handler_config_error [OF v] notify_and_raise_simps
    using c s by (simp add: m_def)
qed

theorem missing_topic_witness:
  "result (lambda_handler (scenario_env\<lparr>environ := config (Some ''dst'') None\<rparr>) scenario_event) =
     Inl (ValueError ''SNS_TOPIC_ARN environment variable not set'') \<and>
   calls (lambda_handler (scenario_env\<lparr>environ := config (Some ''dst'') None\<rparr>) scenario_event) = []"
proof -
  let ?env = "scenario_env\<lparr>environ := config (Some ''dst'') None\<rparr>"
  have "falsy (environ ?env ''SNS_TOPIC_ARN'')" "\<not> falsy (environ ?env ''BACKUP_BUCKET'')"
    by (simp_all add: falsy_def)
  with missing_topic [of ?env scenario_event] show ?thesis by auto
qed

text \<open>
  With neither variable set, the message of the error does not mention
  \<open>SNS_TOPIC_ARN\<close>.
\<close>

theorem missing_topic_counterexample:
  "falsy (environ (scenario_env\<lparr>environ := config None None\<rparr>) ''SNS_TOPIC_ARN'') \<and>
   result (lambda_handler (scenario_env\<lparr>environ := config None None\<rparr>) scenario_event) =
     Inl (ValueError ''BACKUP_BUCKET environment variable not set'') \<and>
   \<not> sublist ''SNS_TOPIC_ARN'' ''BACKUP_BUCKET environment variable not set''"
proof -
  let ?env = "scenario_env\<lparr>environ := config None None\<rparr>"
  have f: "falsy (environ ?env ''SNS_TOPIC_ARN'')" "falsy (environ ?env ''BACKUP_BUCKET'')"
    by (simp_all add: falsy_def)
  have "validate_config (environ ?env ''BACKUP_BUCKET'') (environ ?env ''SNS_TOPIC_ARN'')
          = Inl (ValueError ''BACKUP_BUCKET environment variable not set'')"
    by (rule validate_config_falsy(1) [OF f(2)])
  from handler_config_error [OF this]
  have "result (lambda_handler ?env scenario_event) =
     Inl (ValueError ''BACKUP_BUCKET environment variable not set'')"
    by (simp add: notify_and_raise_simps)
  moreover have "\<not> sublist ''SNS_TOPIC_ARN'' ''BACKUP_BUCKET environment variable not set''"
    by code_simp
  ultimately show ?thesis using f by simp
qed

section \<open>An event that cannot be read\<close>

lemma extract_event_key_error:
  assumes "lookup_path ev bucket_name_path = Inr sb" "lookup_path ev object_key_path = Inl e"
  shows "extract_event ev l = (Inl e, l\<lparr>loc_source_bucket := Some sb\<rparr>)"
  using assms by (simp add: extract_event_def)

lemma extract_event_first_error:
  assumes "lookup_path ev bucket_name_path = Inl e"
  shows "extract_event ev l = (Inl e, l)"
  using assms by (simp add: extract_event_def)

text \<open>No copy is requested when the event cannot be read.\<close>

lemma try_body_extract_error:
  assumes "environ env ''BACKUP_BUCKET'' = Some bb" "bb \<noteq> []"
    "environ env ''SNS_TOPIC_ARN'' = Some arn" "arn \<noteq> []"
    and "extract_event ev (read_config env) = (Inl e, l)"
  shows "try_body env ev = (Inl e, l, [])"
  using assms by (simp add: try_body_complete)

lemma without_key_paths:
  "lookup_path event_without_key bucket_name_path = Inr (JStr ''src'')"
  "lookup_path event_without_key object_key_path = Inl (KeyError (squote @ ''key'' @ squote))"
  by (simp_all add: event_without_key_def scenario_paths)

lemma without_key_run:
  "calls (lambda_handler scenario_env event_without_key) =
     [Publish (sfn_request scenario_env 0 ''topic1''
        (''Invalid event structure - missing required field: '' @ squote @ ''key'' @ squote)
        ''Invalid Event Data'')]"
proof -
  let ?l = "(read_config scenario_env)\<lparr>loc_source_bucket := Some (JStr ''src'')\<rparr>"
  have ex: "extract_event event_without_key (read_config scenario_env) =
      (Inl (KeyError (squote @ ''key'' @ squote)), ?l)"
    by (simp add: extract_event_key_error [OF without_key_paths])
  have tb: "try_body scenario_env event_without_key = (Inl (KeyError (squote @ ''key'' @ squote)), ?l, [])"
    by (rule try_body_extract_error [OF _ _ _ _ ex, of "''dst''" "''topic1''"]) simp_all
  have l: "arn_or_None ?l = Some ''topic1''" "ticks ?l = 0"
    using extract_event_read_config [OF ex] by simp_all
  have "exn_str (KeyError (squote @ ''key'' @ squote)) = squote @ ''key'' @ squote"
    by (simp add: KeyError_def)
  then show ?thesis
    by (simp add: handler_calls_failure [OF tb] l sfn_calls)
qed

text \<open>
  Claim C7, as the code has it. With a complete configuration, when the bucket name of
  the event resolves and the lookup of \<open>Records[0].s3.object.key\<close> fails on a missing
  dictionary key, the handler raises that \<open>KeyError\<close>, the \<open>except KeyError\<close>
  clause (\<open>MalformedEvent\<close>) handles it, and exactly one notification is published:
  the short message of \<open>send_failure_notification\<close>, with the category
  \<open>Invalid Event Data\<close> and the error text that names the missing key. That message
  has no field for the object key.
\<close>

theorem missing_key_is_malformed_event:
  assumes "environ env ''BACKUP_BUCKET'' = Some bb" "bb \<noteq> []"
    and "environ env ''SNS_TOPIC_ARN'' = Some arn" "arn \<noteq> []"
    and "lookup_path ev bucket_name_path = Inr sb"
    and "lookup_path ev object_key_path = Inl (KeyError k)"
  shows "result (lambda_handler env ev) = Inl (KeyError k) \<and>
         handled (lambda_handler env ev) = Some MalformedEvent \<and>
         calls (lambda_handler env ev) =
           [Publish \<lparr>TopicArn = arn,
                     Subject = ''AWS Backup System Error - Invalid Event Data'',
                     Message = sfn_message (now env 0)
                       (''Invalid event structure - missing required field: '' @ k)
                       ''Invalid Event Data''\<rparr>]"
proof -
  define l where "l = (read_config env)\<lparr>loc_source_bucket := Some sb\<rparr>"
  have ex: "extract_event ev (read_config env) = (Inl (KeyError k), l)"
    by (simp add: extract_event_key_error [OF assms(5,6)] l_def)
  have tb: "try_body env ev = (Inl (KeyError k), l, [])"
    by (rule try_body_extract_error [OF assms(1-4) ex])
  have l: "arn_or_None l = Some arn" "ticks l = 0"
    using extract_event_read_config [OF ex] assms(3) by simp_all
  have "exn_str (KeyError k) = k"
    by (simp add: KeyError_def)
  then show ?thesis
    using assms(4)
    by (simp add: handler_result handler_handled handler_calls_failure [OF tb] tb l sfn_calls
        sfn_request_def)
qed

theorem missing_key_is_malformed_event_witness:
  "result (lambda_handler scenario_env event_without_key) = Inl (KeyError (squote @ ''key'' @ squote)) \<and>
   handled (lambda_handler scenario_env event_without_key) = Some MalformedEvent"
proof -
  have cfg: "environ scenario_env ''BACKUP_BUCKET'' = Some ''dst''" "''dst'' \<noteq> []"
    "environ scenario_env ''SNS_TOPIC_ARN'' = Some ''topic1''" "''topic1'' \<noteq> []"
    by simp_all
  from missing_key_is_malformed_event [OF cfg without_key_paths]
  show ?thesis by blast
qed

text \<open>
  For the scenario event without \<open>key\<close>, the one message published does not contain
  the text \<open>Unknown\<close>: the sentinel belongs to the message of the last clause only.
\<close>

theorem missing_key_message_counterexample:
  "calls (lambda_handler scenario_env event_without_key) =
     [Publish (sfn_request scenario_env 0 ''topic1''
        (''Invalid event structure - missing required field: '' @ squote @ ''key'' @ squote)
        ''Invalid Event Data'')] \<and>
   \<not> sublist ''Unknown'' (Message (sfn_request scenario_env 0 ''topic1''
        (''Invalid event structure - missing required field: '' @ squote @ ''key'' @ squote)
        ''Invalid Event Data''))"
proof -
  have "Message (sfn_request scenario_env 0 ''topic1''
        (''Invalid event structure - missing required field: '' @ squote @ ''key'' @ squote)
        ''Invalid Event Data'') =
     lines_text
       ['''',
        ''BACKUP SYSTEM ERROR'',
        '''',
        ''Category: Invalid Event Data'',
        ''Error: Invalid event structure - missing required field: '' @ squote @ ''key'' @ squote,
        ''Timestamp: 2024-01-01 00:00:00 UTC'',
        '''',
        ''Please check CloudWatch logs for detailed information.'']"
    by (simp add: sfn_request_def sfn_message_def scenario_env_def clock_def)
  moreover have "\<not> sublist ''Unknown'' (lines_text
       ['''',
        ''BACKUP SYSTEM ERROR'',
        '''',
        ''Category: Invalid Event Data'',
        ''Error: Invalid event structure - missing required field: '' @ squote @ ''key'' @ squote,
        ''Timestamp: 2024-01-01 00:00:00 UTC'',
        '''',
        ''Please check CloudWatch logs for detailed information.''])"
    by code_simp
  ultimately show ?thesis
    using without_key_run by simp
qed

text \<open>
  Whatever stops the reading of the event, the handler raises it and requests no copy;
  a missing dictionary key is handled as \<open>MalformedEvent\<close>.
\<close>

lemma unreadable_event_no_copy:
  assumes "environ env ''BACKUP_BUCKET'' = Some bb" "bb \<noteq> []"
    and "environ env ''SNS_TOPIC_ARN'' = Some arn" "arn \<noteq> []"
    and "extract_event ev (read_config env) = (Inl e, l)"
  shows "result (lambda_handler env ev) = Inl e"
    and "handled (lambda_handler env ev) = Some (classify e)"
    and "CopyObject r \<notin> set (calls (lambda_handler env ev))"
proof -
  have tb: "try_body env ev = (Inl e, l, [])"
    by (rule try_body_extract_error [OF assms])
  show "result (lambda_handler env ev) = Inl e"
    by (simp add: handler_result tb)
  show "handled (lambda_handler env ev) = Some (classify e)"
    by (simp add: handler_handled tb)
  show "CopyObject r \<notin> set (calls (lambda_handler env ev))"
    by (simp add: handler_calls_failure [OF tb] sfn_calls notify_try_calls
        split: error_kind.split option.split)
qed

lemma without_records_paths:
  "lookup_path event_without_records bucket_name_path = Inl (IndexError ''list index out of range'')"
  "lookup_path event_without_records object_key_path = Inl (IndexError ''list index out of range'')"
  "lookup_path event_without_records object_size_path = Inl (IndexError ''list index out of range'')"
  "lookup_path event_without_records event_time_path = Inl (IndexError ''list index out of range'')"
  by (simp_all add: event_without_records_def bucket_name_path_def object_key_path_def
      object_size_path_def event_time_path_def py_index_def)

lemma missing_dict_key_malformed:
  assumes "environ env ''BACKUP_BUCKET'' = Some bb" "bb \<noteq> []"
    and "environ env ''SNS_TOPIC_ARN'' = Some arn" "arn \<noteq> []"
    and "extract_event ev (read_config env) = (Inl (KeyError k), l)"
  shows "handled (lambda_handler env ev) = Some MalformedEvent"
  using unreadable_event_no_copy(2) [OF assms] by simp

text \<open>
  Claim C4 at the event \<open>{"Records": []}\<close>, with the configuration of the scenario.
  \<open>event['Records'][0]\<close> raises \<open>IndexError\<close>, which is not a \<open>KeyError\<close>: the
  clause that handles it is \<open>except Exception\<close>, so the failure is reported as a
  failed backup operation and not as a malformed event. No copy is requested.
\<close>

theorem empty_records_generic_failure:
  "lookup_path event_without_records bucket_name_path = Inl (IndexError ''list index out of range'') \<and>
   result (lambda_handler scenario_env event_without_records) =
     Inl (IndexError ''list index out of range'') \<and>
   handled (lambda_handler scenario_env event_without_records) = Some StorageOperationError \<and>
   handled (lambda_handler scenario_env event_without_records) \<noteq> Some MalformedEvent \<and>
   calls (lambda_handler scenario_env event_without_records) =
     [Publish (failure_request scenario_env (IndexError ''list index out of range'')
        (read_config scenario_env) ''topic1'')]"
proof -
  let ?e = "IndexError ''list index out of range''"
  have ex: "extract_event event_without_records (read_config scenario_env) =
      (Inl ?e, read_config scenario_env)"
    by (rule extract_event_first_error [OF without_records_paths(1)])
  have tb: "try_body scenario_env event_without_records = (Inl ?e, read_config scenario_env, [])"
    by (rule try_body_extract_error [OF _ _ _ _ ex, of "''dst''" "''topic1''"]) simp_all
  show ?thesis
    by (simp add: without_records_paths handler_result handler_handled
        handler_calls_failure [OF tb] tb notify_try_calls)
qed

section \<open>The success message\<close>






section \<open>Calling the handler again\<close>

lemma handled_outcome:
  "handled (lambda_handler env ev) =
     (case outcome (fst (try_body env ev)) of Inr _ \<Rightarrow> None | Inl e \<Rightarrow> Some (classify e))"
  by (simp add: handler_handled outcome_def split: sum.split)

lemma success_message_clock:
  "(case success_message (env\<lparr>now := c\<rparr>) ok fs sb bb t' of Inl e \<Rightarrow> Inl e | Inr _ \<Rightarrow> Inr ()) =
   (case success_message env ok fs sb bb t of Inl e \<Rightarrow> Inl e | Inr _ \<Rightarrow> Inr ())"
  by (simp add: success_message_def format_success_message_def py_str_def split: option.split)

lemma perform_backup_clock:
  assumes "\<forall>r m. publish env (r\<lparr>Message := m\<rparr>) = publish env r"
  shows "outcome (fst (perform_backup (env\<lparr>now := c\<rparr>) bb arn sb ok fs l)) =
         outcome (fst (perform_backup env bb arn sb ok fs l'))"
proof -
  have pub: "publish env (success_request arn m1) = publish env (success_request arn m2)" for m1 m2
    using assms [rule_format, where r = "success_request arn m2" and m = m1]
    by (simp add: success_request_def)
  show ?thesis
  proof (cases "copy_object env (copy_request_of bb sb ok)")
    case (Inl e)
    then show ?thesis by (simp add: perform_backup_def outcome_def)
  next
    case cp: (Inr cr)
    show ?thesis
    proof (cases "etag_of cr")
      case (Inl e)
      with cp show ?thesis by (simp add: perform_backup_def outcome_def)
    next
      case et: (Inr tag)
      show ?thesis
      proof (cases "success_message env ok fs sb bb (now env 0)")
        case (Inl e)
        with success_message_clock [where env = env and c = c and ok = ok and fs = fs and sb = sb
            and bb = bb and t' = "c 0" and t = "now env 0"]
        have "success_message (env\<lparr>now := c\<rparr>) ok fs sb bb (c 0) = Inl e"
          by (simp split: sum.splits)
        with Inl cp et show ?thesis by (simp add: perform_backup_def outcome_def)
      next
        case (Inr msg)
        with success_message_clock [where env = env and c = c and ok = ok and fs = fs and sb = sb
            and bb = bb and t' = "c 0" and t = "now env 0"]
        obtain msg' where "success_message (env\<lparr>now := c\<rparr>) ok fs sb bb (c 0) = Inr msg'"
          by (auto split: sum.splits)
        then have "success_message (env\<lparr>now := c\<rparr>) ok fs sb bb (now (env\<lparr>now := c\<rparr>) 0)
            = Inr msg'"
          by simp
        from perform_backup_result [OF this] perform_backup_result [OF Inr] cp et pub [of msg' msg]
        show ?thesis
          by (simp add: outcome_def split: sum.split option.split)
      qed
    qed
  qed
qed

lemma try_body_clock:
  assumes "\<forall>r m. publish env (r\<lparr>Message := m\<rparr>) = publish env r"
  shows "outcome (fst (try_body (env\<lparr>now := c\<rparr>) ev)) = outcome (fst (try_body env ev))"
  using perform_backup_clock [OF assms]
  by (simp add: try_body_def read_config_def split: sum.split prod.split)

text \<open>
  Claim C8. Two invocations on the same event, with the same configuration, the same
  collaborators (functions of the request) and the same clock, are handled by the same
  clause and end the same way: both return, or both raise the same exception. The
  clock is the one thing the handler reads that moves between two invocations: with
  another clock the classification is still the same, provided the outcome of a publish
  does not depend on the text of the message, which carries the timestamp.
\<close>

theorem repeated_call_same_classification:
  "handled (snd (handle_twice env ev)) = handled (fst (handle_twice env ev)) \<and>
   outcome (result (snd (handle_twice env ev))) = outcome (result (fst (handle_twice env ev))) \<and>
   ((\<forall>r m. publish env (r\<lparr>Message := m\<rparr>) = publish env r) \<longrightarrow>
      handled (lambda_handler (env\<lparr>now := c\<rparr>) ev) = handled (lambda_handler env ev) \<and>
      outcome (result (lambda_handler (env\<lparr>now := c\<rparr>) ev)) =
        outcome (result (lambda_handler env ev)))"
  by (simp add: handle_twice_def handled_outcome handler_result try_body_clock)

theorem repeated_call_same_classification_witness:
  "handled (lambda_handler (scenario_env\<lparr>now := later_clock\<rparr>) scenario_event) =
     handled (lambda_handler scenario_env scenario_event) \<and>
   handled (snd (handle_twice scenario_env scenario_event)) =
     handled (fst (handle_twice scenario_env scenario_event)) \<and>
   handled (lambda_handler scenario_env scenario_event) = None"
proof -
  have "\<forall>r m. publish scenario_env (r\<lparr>Message := m\<rparr>) = publish scenario_env r"
    by (simp add: scenario_env_def publish_ok_def)
  with repeated_call_same_classification [of scenario_env scenario_event later_clock]
  have "handled (lambda_handler (scenario_env\<lparr>now := later_clock\<rparr>) scenario_event) =
     handled (lambda_handler scenario_env scenario_event)"
    and "handled (snd (handle_twice scenario_env scenario_event)) =
     handled (fst (handle_twice scenario_env scenario_event))"
    by blast+
  moreover have "handled (lambda_handler scenario_env scenario_event) = None"
    by (simp add: handler_handled scenario_try_body)
  ultimately show ?thesis by simp
qed

end
